theory Spec2Isabelle
  imports Complex_Main "HOL-Library.Multiset" "HOL-Library.Sublist"
begin

section \<open>Data model\<close>

text \<open>
  Documents of the store, one record per Mongoose schema. An ObjectId is modelled by its
  hexadecimal string; a date by a number of milliseconds. A string is the UTF-8 text of
  the JavaScript string. Field names carry a prefix of the collection, since record fields
  share one name space.
\<close>

type_synonym oid = string

text \<open>
  Modelled from the spec: models/User.js is not part of the sources. A user has an
  identifier, a name, an email and a role, the role being an untyped string.
\<close>

record user =
  us_id :: oid
  us_name :: string
  us_email :: string
  us_role :: string

text \<open>models/Notification.js: \<open>read\<close> defaults to false, \<open>link\<close> is optional.\<close>

record notification =
  nt_id :: oid
  nt_recipient :: oid
  nt_title :: string
  nt_message :: string
  nt_type :: string
  nt_read :: bool
  nt_link :: "string option"
  nt_createdAt :: nat

text \<open>
  models/Event.js. The schema declares the paths below and no others; in particular it
  declares no \<open>sharedWith\<close>. The date is kept as the ISO 8601 text of the request.
\<close>

record image_ref =
  im_url :: string
  im_publicId :: string

record report_ref =
  rp_filename :: string
  rp_size :: nat
  rp_mimetype :: string
  rp_fileUrl :: string
  rp_publicId :: string

record event =
  ev_id :: oid
  ev_title :: string
  ev_description :: string
  ev_location :: string
  ev_district :: string
  ev_date :: string
  ev_time :: "string option"
  ev_images :: "image_ref list"
  ev_reports :: "report_ref list"
  ev_createdBy :: oid
  ev_createdAt :: nat

text \<open>
  Modelled from the spec: models/EventRegistration.js is not part of the sources. A
  registration refers to its event, holds the registrant's contact and demographic
  fields, a status, a creation time and \<open>sharedWith\<close>, a list of user references. As
  for every other user reference of the schemas at hand (\<open>createdBy\<close>, \<open>recipient\<close>),
  the elements of \<open>sharedWith\<close> are ObjectIds. The status is free text: \<open>pending\<close> is
  the one value the system assigns, and no closed set of statuses is enforced. The age is
  \<open>Some n\<close> when the submitted value reads as the integer \<open>n\<close>, and \<open>None\<close>
  otherwise.
\<close>

record registration =
  rg_id :: oid
  rg_event :: oid
  rg_name :: string
  rg_email :: string
  rg_phone :: string
  rg_age :: "int option"
  rg_gender :: string
  rg_address :: string
  rg_district :: string
  rg_taluka :: string
  rg_village :: string
  rg_status :: string
  rg_sharedWith :: "oid list"
  rg_createdAt :: nat

text \<open>The store: one list per collection, in insertion order, and the number of
  ObjectIds handed out so far.\<close>

record db =
  db_users :: "user list"
  db_events :: "event list"
  db_registrations :: "registration list"
  db_notifications :: "notification list"
  db_oids :: nat

text \<open>
  What the handlers take from outside the sources: the ObjectId generator, which texts
  Mongoose casts to an ObjectId, the validators \<open>isEmail\<close> and \<open>isISO8601\<close> of
  express-validator, and, for each collection, which documents \<open>save()\<close> rejects (a
  failed cast, a schema validator, the store itself).
\<close>

record env =
  gen_oid :: "nat \<Rightarrow> oid"
  castsToObjectId :: "string \<Rightarrow> bool"
  isEmail :: "string \<Rightarrow> bool"
  isISO8601 :: "string \<Rightarrow> bool"
  notification_save_fails :: "notification \<Rightarrow> bool"
  registration_save_fails :: "registration \<Rightarrow> bool"
  event_save_fails :: "event \<Rightarrow> bool"

text \<open>Exceptions, and the answers of a handler with their status codes.\<close>

datatype exn = SaveError | TypeError | CastError

datatype 'a response =
    Ok 'a
  | Created 'a
  | ValidationError "(string \<times> string) list"
  | Forbidden string
  | NotFound string
  | ServerError string

fun status_code :: "'a response \<Rightarrow> nat" where
  "status_code (Ok x) = 200"
| "status_code (Created x) = 201"
| "status_code (ValidationError es) = 400"
| "status_code (Forbidden m) = 403"
| "status_code (NotFound m) = 404"
| "status_code (ServerError m) = 500"

definition dquote :: string where
  "dquote = [CHR 0x22]"

definition new_oid :: "env \<Rightarrow> db \<Rightarrow> oid \<times> db" where
  "new_oid env d = (gen_oid env (db_oids d), d\<lparr>db_oids := Suc (db_oids d)\<rparr>)"

text \<open>The query by identifier, once the identifier is an ObjectId.\<close>

definition find_event :: "db \<Rightarrow> oid \<Rightarrow> event option" where
  "find_event d i = find (\<lambda>e. ev_id e = i) (db_events d)"

definition find_registration :: "db \<Rightarrow> oid \<Rightarrow> registration option" where
  "find_registration d i = find (\<lambda>r. rg_id r = i) (db_registrations d)"

text \<open>
  \<open>Model.findById(text)\<close> with a text of the request: the text is cast to an ObjectId
  first, and a text that cannot be cast makes the query throw a CastError. Otherwise the
  result is the document of that identifier, or \<open>null\<close> (here \<open>None\<close>).
\<close>

definition findById_event :: "env \<Rightarrow> db \<Rightarrow> string \<Rightarrow> exn + event option" where
  "findById_event env d text_id =
     (if castsToObjectId env text_id then Inr (find_event d text_id) else Inl CastError)"

definition findById_registration :: "env \<Rightarrow> db \<Rightarrow> string \<Rightarrow> exn + registration option" where
  "findById_registration env d text_id =
     (if castsToObjectId env text_id then Inr (find_registration d text_id) else Inl CastError)"

text \<open>
  Modelled from the spec: models/EventRegistration.js is not part of the sources. The
  status of a registration is free text, with no closed set of statuses on the update
  path, so whether \<open>save()\<close> rejects a registration does not depend on its status: a
  registration is rejected exactly when it is rejected with the status \<open>pending\<close>.
\<close>

definition registration_rejected :: "env \<Rightarrow> registration \<Rightarrow> bool" where
  "registration_rejected env r = registration_save_fails env (r\<lparr>rg_status := ''pending''\<rparr>)"

text \<open>\<open>save()\<close> of a registration that was read from the store: it replaces the stored
  document of the same identifier.\<close>

definition update_registration :: "registration \<Rightarrow> db \<Rightarrow> db" where
  "update_registration r d =
     d\<lparr>db_registrations := map (\<lambda>x. if rg_id x = rg_id r then r else x) (db_registrations d)\<rparr>"

section \<open>Access control: middleware/isAdmin.js\<close>

datatype guard = Next | Denied nat string

text \<open>
  \<open>req.user\<close> is \<open>None\<close> when no user was resolved. The guard answers 403 unless the
  role is \<open>admin\<close> or \<open>Official_member\<close>.
\<close>

definition isAdmin :: "user option \<Rightarrow> guard" where
  "isAdmin req_user =
     (case req_user of
        None \<Rightarrow> Denied 403 ''Access denied. Admin or Official member only.''
      | Some u \<Rightarrow>
          if us_role u \<noteq> ''admin'' \<and> us_role u \<noteq> ''Official_member''
          then Denied 403 ''Access denied. Admin or Official member only.''
          else Next)"

section \<open>Notification service: services/notificationService.js\<close>

text \<open>
  \<open>find(...).sort({createdAt: -1})\<close>: descending by creation time. Documents with equal
  times keep their insertion order.
\<close>

definition sort_newest_first :: "('a \<Rightarrow> nat) \<Rightarrow> 'a list \<Rightarrow> 'a list" where
  "sort_newest_first t xs = sort_key (\<lambda>x. - int (t x)) xs"

text \<open>A cursor's \<open>limit(n)\<close>: zero means no limit.\<close>

definition cursor_limit :: "nat \<Rightarrow> 'a list \<Rightarrow> 'a list" where
  "cursor_limit n xs = (if n = 0 then xs else take n xs)"

text \<open>
  JavaScript numbers as far as \<open>Math.ceil(total / limit)\<close> needs them: division by zero
  gives \<open>Infinity\<close>, or \<open>NaN\<close> for \<open>0 / 0\<close>. The quotient is taken exactly.
\<close>

datatype js_number = Num int | PosInfinity | NaN

definition math_ceil_div :: "nat \<Rightarrow> nat \<Rightarrow> js_number" where
  "math_ceil_div total_count limit =
     (if limit = 0 then (if total_count = 0 then NaN else PosInfinity)
      else Num \<lceil>real total_count / real limit\<rceil>)"

record notification_page =
  pg_notifications :: "notification list"
  pg_totalPages :: js_number
  pg_currentPage :: nat

text \<open>
  \<open>getUserNotifications(userId, page, limit)\<close> over the notification collection; \<open>page\<close>
  and \<open>limit\<close> are natural numbers here.
\<close>

definition getUserNotifications :: "notification list \<Rightarrow> oid \<Rightarrow> nat \<Rightarrow> nat \<Rightarrow> notification_page" where
  "getUserNotifications coll userId page limit =
     (let notifications =
            cursor_limit limit
              (drop ((page - 1) * limit)
                 (sort_newest_first nt_createdAt (filter (\<lambda>n. nt_recipient n = userId) coll)));
          total_count = length (filter (\<lambda>n. nt_recipient n = userId) coll)
      in \<lparr>pg_notifications = notifications,
          pg_totalPages = math_ceil_div total_count limit,
          pg_currentPage = page\<rparr>)"

text \<open>\<open>updateMany({recipient: userId, read: false}, {read: true})\<close>.\<close>

definition markAllAsRead :: "notification list \<Rightarrow> oid \<Rightarrow> notification list" where
  "markAllAsRead coll userId =
     map (\<lambda>n. if nt_recipient n = userId \<and> nt_read n = False then n\<lparr>nt_read := True\<rparr> else n) coll"

text \<open>\<open>countDocuments({recipient: userId, read: false})\<close>.\<close>

definition getUnreadCount :: "notification list \<Rightarrow> oid \<Rightarrow> nat" where
  "getUnreadCount coll userId =
     length (filter (\<lambda>n. nt_recipient n = userId \<and> nt_read n = False) coll)"

text \<open>\<open>new Notification({recipient, title, message, type, link})\<close> with the identifier
  \<open>i\<close>: \<open>read\<close> takes its default, the creation time is now.\<close>

definition new_notification ::
  "oid \<Rightarrow> nat \<Rightarrow> oid \<Rightarrow> string \<Rightarrow> string \<Rightarrow> string \<Rightarrow> string option \<Rightarrow> notification" where
  "new_notification i now recipientId title message type link =
     \<lparr>nt_id = i, nt_recipient = recipientId, nt_title = title, nt_message = message,
      nt_type = type, nt_read = False, nt_link = link, nt_createdAt = now\<rparr>"

text \<open>
  \<open>createNotification(recipientId, title, message, type, link)\<close>: builds the document and
  saves it. A failed save is logged and thrown again.
\<close>

definition createNotification ::
  "env \<Rightarrow> nat \<Rightarrow> oid \<Rightarrow> string \<Rightarrow> string \<Rightarrow> string \<Rightarrow> string option \<Rightarrow> db
     \<Rightarrow> (exn + notification) \<times> db" where
  "createNotification env now recipientId title message type link d =
     (let (i, d1) = new_oid env d;
          notification = new_notification i now recipientId title message type link
      in if notification_save_fails env notification then (Inl SaveError, d1)
         else (Inr notification, d1\<lparr>db_notifications := db_notifications d1 @ [notification]\<rparr>))"

section \<open>Registration flow: routes/eventRegistrations.js\<close>

text \<open>
  The body of a registration request. A text field that is absent reads as the empty
  string, as express-validator reads it.
\<close>

record registration_body =
  rb_event :: string
  rb_name :: string
  rb_email :: string
  rb_phone :: string
  rb_age :: "int option"
  rb_gender :: string
  rb_address :: string
  rb_district :: string
  rb_taluka :: string
  rb_village :: string

text \<open>One \<open>check(field, message)\<close> chain gives at most one error, \<open>(field, message)\<close>.\<close>

definition check_not_isEmpty :: "string \<Rightarrow> string \<Rightarrow> string \<Rightarrow> (string \<times> string) list" where
  "check_not_isEmpty field message v = (if v = [] then [(field, message)] else [])"

definition check_isInt_min1 :: "string \<Rightarrow> string \<Rightarrow> int option \<Rightarrow> (string \<times> string) list" where
  "check_isInt_min1 field message v =
     (case v of None \<Rightarrow> [(field, message)]
      | Some n \<Rightarrow> if 1 \<le> n then [] else [(field, message)])"

definition check_isIn :: "string \<Rightarrow> string \<Rightarrow> string list \<Rightarrow> string \<Rightarrow> (string \<times> string) list" where
  "check_isIn field message allowed v = (if v \<in> set allowed then [] else [(field, message)])"

text \<open>The errors of \<open>validationResult(req)\<close>, in the order of the checks.\<close>

definition register_validation :: "env \<Rightarrow> registration_body \<Rightarrow> (string \<times> string) list" where
  "register_validation env b =
     check_not_isEmpty ''event'' ''Event ID is required'' (rb_event b)
   @ check_not_isEmpty ''name'' ''Name is required'' (rb_name b)
   @ (if isEmail env (rb_email b) then [] else [(''email'', ''Please include a valid email'')])
   @ check_not_isEmpty ''phone'' ''Phone number is required'' (rb_phone b)
   @ check_isInt_min1 ''age'' ''Age is required'' (rb_age b)
   @ check_isIn ''gender'' ''Gender is required'' [''male'', ''female'', ''other''] (rb_gender b)
   @ check_not_isEmpty ''address'' ''Address is required'' (rb_address b)
   @ check_not_isEmpty ''district'' ''District is required'' (rb_district b)
   @ check_not_isEmpty ''taluka'' ''Taluka is required'' (rb_taluka b)
   @ check_not_isEmpty ''village'' ''Village is required'' (rb_village b)"

text \<open>\<open>new EventRegistration({...req.body, status: 'pending'})\<close> with the identifier \<open>i\<close>.\<close>

definition new_registration :: "oid \<Rightarrow> nat \<Rightarrow> registration_body \<Rightarrow> registration" where
  "new_registration i now b =
     \<lparr>rg_id = i, rg_event = rb_event b, rg_name = rb_name b, rg_email = rb_email b,
      rg_phone = rb_phone b, rg_age = rb_age b, rg_gender = rb_gender b,
      rg_address = rb_address b, rg_district = rb_district b, rg_taluka = rb_taluka b,
      rg_village = rb_village b, rg_status = ''pending'', rg_sharedWith = [],
      rg_createdAt = now\<rparr>"

definition register_message :: "registration \<Rightarrow> event \<Rightarrow> string" where
  "register_message registration event =
     rg_name registration @ '' has registered for your event '' @ dquote @ ev_title event @ dquote"

text \<open>\<open>router.post('/')\<close>: register for an event. Every exception of the \<open>try\<close>
  block, the CastError of \<open>findById\<close> among them, is answered with 500.\<close>

definition register :: "env \<Rightarrow> nat \<Rightarrow> registration_body \<Rightarrow> db \<Rightarrow> registration response \<times> db" where
  "register env now b d =
     (let errors = register_validation env b in
      if errors \<noteq> [] then (ValidationError errors, d)
      else
        case findById_event env d (rb_event b) of
          Inl e \<Rightarrow> (ServerError ''Server Error'', d)
        | Inr None \<Rightarrow> (NotFound ''Event not found'', d)
        | Inr (Some event) \<Rightarrow>
            let (i, d1) = new_oid env d;
                registration = new_registration i now b
            in if registration_rejected env registration then (ServerError ''Server Error'', d1)
               else
                 let d2 = d1\<lparr>db_registrations := db_registrations d1 @ [registration]\<rparr> in
                 (case createNotification env now (ev_createdBy event) ''New Event Registration''
                         (register_message registration event) ''info''
                         (Some (''/event-registrations/'' @ ev_id event)) d2 of
                    (Inl e, d3) \<Rightarrow> (ServerError ''Server Error'', d3)
                  | (Inr n, d3) \<Rightarrow> (Ok registration, d3)))"

text \<open>
  Reading the property \<open>sharedWith\<close> of an event document: the schema of models/Event.js
  declares no such path, so the read gives \<open>undefined\<close>.
\<close>

datatype 'a js_property = Undefined | Value 'a

definition event_sharedWith :: "event \<Rightarrow> oid list js_property" where
  "event_sharedWith event = Undefined"

text \<open>
  \<open>router.get('/event/:eventId')\<close>. The second operand of \<open>&&\<close> is evaluated only when
  the requester is not the creator; calling \<open>includes\<close> on \<open>undefined\<close> throws a
  TypeError, which the handler's \<open>catch\<close> answers with 500.
\<close>

definition listForEvent :: "env \<Rightarrow> db \<Rightarrow> string \<Rightarrow> oid \<Rightarrow> registration list response" where
  "listForEvent env d eventId req_user_id =
     (case findById_event env d eventId of
        Inl e \<Rightarrow> ServerError ''Server Error''
      | Inr None \<Rightarrow> NotFound ''Event not found''
      | Inr (Some event) \<Rightarrow>
          let registrations =
                sort_newest_first rg_createdAt (filter (\<lambda>r. rg_event r = eventId) (db_registrations d))
          in if ev_createdBy event \<noteq> req_user_id then
               (case event_sharedWith event of
                  Undefined \<Rightarrow> ServerError ''Server Error''
                | Value sharedWith \<Rightarrow>
                    if req_user_id \<notin> set sharedWith then Forbidden ''Not authorized''
                    else Ok registrations)
             else Ok registrations)"

text \<open>
  \<open>[...new Set([...registration.sharedWith, ...req.body.userIds])]\<close>. A Set keeps the
  first occurrence of each value, in insertion order, and compares strings by value and
  objects by identity. The elements read from \<open>registration.sharedWith\<close> are ObjectId
  objects, each one an object of its own (its identity is its position in the array); the
  elements of \<open>req.body.userIds\<close> are strings. Assigning the array to the document casts
  every element to an ObjectId.
\<close>

datatype js_value = ObjectId nat oid | JsString string

definition js_Set_values :: "'a list \<Rightarrow> 'a list" where
  "js_Set_values xs = foldl (\<lambda>acc x. if x \<in> set acc then acc else acc @ [x]) [] xs"

fun cast_ObjectId :: "js_value \<Rightarrow> oid" where
  "cast_ObjectId (ObjectId a i) = i"
| "cast_ObjectId (JsString s) = s"

definition merge_sharedWith :: "oid list \<Rightarrow> string list \<Rightarrow> oid list" where
  "merge_sharedWith sharedWith userIds =
     map cast_ObjectId
       (js_Set_values (map (\<lambda>(a, i). ObjectId a i) (enumerate 0 sharedWith) @ map JsString userIds))"

definition share_message :: "event \<Rightarrow> string" where
  "share_message event =
     ''Event registration for '' @ dquote @ ev_title event @ dquote @ '' has been shared with you''"

text \<open>The loop \<open>for (const userId of req.body.userIds)\<close>: one awaited
  \<open>createNotification\<close> after the other; the first failure ends the loop.\<close>

fun share_notify :: "env \<Rightarrow> nat \<Rightarrow> event \<Rightarrow> string list \<Rightarrow> db \<Rightarrow> (exn + unit) \<times> db" where
  "share_notify env now event [] d = (Inr (), d)"
| "share_notify env now event (userId # rest) d =
     (case createNotification env now userId ''Event Registration Shared''
             (share_message event) ''info'' (Some (''/event-registrations/'' @ ev_id event)) d of
        (Inl e, d1) \<Rightarrow> (Inl e, d1)
      | (Inr n, d1) \<Rightarrow> share_notify env now event rest d1)"

text \<open>
  \<open>router.post('/share/:registrationId')\<close>. \<open>userIds\<close> is \<open>None\<close> when the body has no
  array under that name. The event is looked up by \<open>registration.event\<close>, which is an
  ObjectId already.
\<close>

definition share ::
  "env \<Rightarrow> nat \<Rightarrow> string \<Rightarrow> oid \<Rightarrow> string list option \<Rightarrow> db \<Rightarrow> registration response \<times> db" where
  "share env now registrationId req_user_id userIds d =
     (case findById_registration env d registrationId of
        Inl e \<Rightarrow> (ServerError ''Server Error'', d)
      | Inr None \<Rightarrow> (NotFound ''Registration not found'', d)
      | Inr (Some registration) \<Rightarrow>
          (case find_event d (rg_event registration) of
             None \<Rightarrow> (NotFound ''Event not found'', d)
           | Some event \<Rightarrow>
               if ev_createdBy event \<noteq> req_user_id then (Forbidden ''Not authorized'', d)
               else
                 (case userIds of
                    None \<Rightarrow> (Ok registration, d)
                  | Some ids \<Rightarrow>
                      let registration' = registration
                            \<lparr>rg_sharedWith := merge_sharedWith (rg_sharedWith registration) ids\<rparr>
                      in if registration_rejected env registration'
                         then (ServerError ''Server Error'', d)
                         else
                           (case share_notify env now event ids
                                   (update_registration registration' d) of
                              (Inl e, d2) \<Rightarrow> (ServerError ''Server Error'', d2)
                            | (Inr u, d2) \<Rightarrow> (Ok registration', d2)))))"



section \<open>Event creation: routes/events.js\<close>

text \<open>The text fields of the multipart body; \<open>time\<close> is optional.\<close>

record event_body =
  eb_title :: string
  eb_description :: string
  eb_location :: string
  eb_district :: string
  eb_date :: string
  eb_time :: "string option"

text \<open>
  The sanitizer \<open>trim()\<close> removes the white space of JavaScript at both ends: tab, line feed, vertical tab, form feed, carriage return, space, U+00A0,
  U+1680, U+2000 to U+200A, U+2028, U+2029, U+202F, U+205F, U+3000 and U+FEFF. In UTF-8
  these are the six bytes of \<open>is_space\<close>, the two bytes of \<open>is_space2\<close> and the three
  bytes of \<open>is_space3\<close>.
\<close>

definition is_space :: "char \<Rightarrow> bool" where
  "is_space c = (c \<in> set [CHR 0x09, CHR 0x0A, CHR 0x0B, CHR 0x0C, CHR 0x0D, CHR 0x20])"

definition is_space2 :: "char \<Rightarrow> char \<Rightarrow> bool" where
  "is_space2 a b = (a = CHR 0xC2 \<and> b = CHR 0xA0)"

definition is_space3 :: "char \<Rightarrow> char \<Rightarrow> char \<Rightarrow> bool" where
  "is_space3 a b c =
     (a = CHR 0xE1 \<and> b = CHR 0x9A \<and> c = CHR 0x80
    \<or> a = CHR 0xE2 \<and> b = CHR 0x80
        \<and> c \<in> set [CHR 0x80, CHR 0x81, CHR 0x82, CHR 0x83, CHR 0x84, CHR 0x85, CHR 0x86,
                      CHR 0x87, CHR 0x88, CHR 0x89, CHR 0x8A, CHR 0xA8, CHR 0xA9, CHR 0xAF]
    \<or> a = CHR 0xE2 \<and> b = CHR 0x81 \<and> c = CHR 0x9F
    \<or> a = CHR 0xE3 \<and> b = CHR 0x80 \<and> c = CHR 0x80
    \<or> a = CHR 0xEF \<and> b = CHR 0xBB \<and> c = CHR 0xBF)"

text \<open>Dropping the characters at the front that \<open>p1\<close>, \<open>p2\<close> and \<open>p3\<close> recognise, of
  one, two and three bytes.\<close>

fun drop_leading ::
  "(char \<Rightarrow> bool) \<Rightarrow> (char \<Rightarrow> char \<Rightarrow> bool) \<Rightarrow> (char \<Rightarrow> char \<Rightarrow> char \<Rightarrow> bool) \<Rightarrow> string
     \<Rightarrow> string" where
  "drop_leading p1 p2 p3 (a # b # c # s) =
     (if p1 a then drop_leading p1 p2 p3 (b # c # s)
      else if p2 a b then drop_leading p1 p2 p3 (c # s)
      else if p3 a b c then drop_leading p1 p2 p3 s
      else a # b # c # s)"
| "drop_leading p1 p2 p3 [a, b] =
     (if p1 a then drop_leading p1 p2 p3 [b]
      else if p2 a b then []
      else [a, b])"
| "drop_leading p1 p2 p3 [a] = (if p1 a then [] else [a])"
| "drop_leading p1 p2 p3 [] = []"

definition ltrim :: "string \<Rightarrow> string" where
  "ltrim s = drop_leading is_space is_space2 is_space3 s"

text \<open>At the end the bytes of a character are met in reverse.\<close>

definition rtrim :: "string \<Rightarrow> string" where
  "rtrim s =
     rev (drop_leading is_space (\<lambda>a b. is_space2 b a) (\<lambda>a b c. is_space3 c b a) (rev s))"

definition trim :: "string \<Rightarrow> string" where
  "trim s = rtrim (ltrim s)"

definition check_trim_notEmpty :: "string \<Rightarrow> string \<Rightarrow> string \<Rightarrow> (string \<times> string) list" where
  "check_trim_notEmpty field message v = (if trim v = [] then [(field, message)] else [])"

text \<open>The check of \<open>time\<close> is \<open>optional().isString()\<close>: a text passes, and so does an
  absent field.\<close>

definition event_validation :: "env \<Rightarrow> event_body \<Rightarrow> (string \<times> string) list" where
  "event_validation env b =
     check_trim_notEmpty ''title'' ''Title is required'' (eb_title b)
   @ check_trim_notEmpty ''description'' ''Description is required'' (eb_description b)
   @ check_trim_notEmpty ''location'' ''Location is required'' (eb_location b)
   @ check_trim_notEmpty ''district'' ''District is required'' (eb_district b)
   @ (if isISO8601 env (eb_date b) then [] else [(''date'', ''Valid date is required'')])"

text \<open>The outcome of the uploads to the object storage, which precede the handler's
  writes: the references of the stored files, or a rejected upload.\<close>

datatype uploads = UploadRejected | Uploaded "image_ref list" "report_ref list"

definition new_event_message :: "string \<Rightarrow> string \<Rightarrow> string" where
  "new_event_message title district =
     ''A new event '' @ dquote @ title @ dquote @ '' has been created in '' @ district"

text \<open>
  \<open>usersToNotify.map(user => ...)\<close>: \<open>null\<close> (here \<open>None\<close>) for the creator, and for
  every other user the promise of a \<open>createNotification\<close>, here its outcome. All the
  calls are started; the store is shown once every one of them has settled, in the order
  of the users.
\<close>

fun notificationPromises ::
  "env \<Rightarrow> nat \<Rightarrow> oid \<Rightarrow> string \<Rightarrow> string \<Rightarrow> oid \<Rightarrow> user list \<Rightarrow> db
     \<Rightarrow> (exn + notification) option list \<times> db" where
  "notificationPromises env now creator title district eventId [] d = ([], d)"
| "notificationPromises env now creator title district eventId (user # rest) d =
     (if us_id user = creator then
        (let (ps, d2) = notificationPromises env now creator title district eventId rest d
         in (None # ps, d2))
      else
        (let (p, d1) = createNotification env now (us_id user) ''New Event Created''
                         (new_event_message title district) ''info''
                         (Some (''/events/'' @ eventId)) d;
             (ps, d2) = notificationPromises env now creator title district eventId rest d1
         in (Some p # ps, d2)))"

text \<open>The documents that the calls of \<open>notificationPromises\<close> build, \<open>c\<close> being the
  number of ObjectIds handed out before.\<close>

fun fanout_documents ::
  "env \<Rightarrow> nat \<Rightarrow> oid \<Rightarrow> string \<Rightarrow> string \<Rightarrow> oid \<Rightarrow> user list \<Rightarrow> nat \<Rightarrow> notification list" where
  "fanout_documents env now creator title district eventId [] c = []"
| "fanout_documents env now creator title district eventId (user # rest) c =
     (if us_id user = creator then fanout_documents env now creator title district eventId rest c
      else new_notification (gen_oid env c) now (us_id user) ''New Event Created''
             (new_event_message title district) ''info'' (Some (''/events/'' @ eventId))
           # fanout_documents env now creator title district eventId rest (Suc c))"

text \<open>\<open>filter(Boolean)\<close> drops the \<open>null\<close> entries.\<close>

fun filter_Boolean :: "'a option list \<Rightarrow> 'a list" where
  "filter_Boolean [] = []"
| "filter_Boolean (None # ps) = filter_Boolean ps"
| "filter_Boolean (Some p # ps) = p # filter_Boolean ps"

text \<open>\<open>await Promise.all(ps)\<close>: the values when every promise is fulfilled, and a
  rejection as soon as one is rejected.\<close>

fun Promise_all :: "(exn + 'a) list \<Rightarrow> exn + 'a list" where
  "Promise_all [] = Inr []"
| "Promise_all (Inl e # ps) = Inl e"
| "Promise_all (Inr v # ps) = (case Promise_all ps of Inl e \<Rightarrow> Inl e | Inr vs \<Rightarrow> Inr (v # vs))"

text \<open>
  The handler of \<open>router.post('/')\<close>, behind \<open>auth\<close>, \<open>checkRole\<close> and the upload
  middleware. Every exception of the \<open>try\<close> block that is not a MulterError is answered
  with 500.
\<close>

definition new_event :: "oid \<Rightarrow> nat \<Rightarrow> oid \<Rightarrow> event_body \<Rightarrow> image_ref list \<Rightarrow> report_ref list \<Rightarrow> event" where
  "new_event i now creator b images reports =
     \<lparr>ev_id = i, ev_title = trim (eb_title b), ev_description = trim (eb_description b),
      ev_location = trim (eb_location b), ev_district = trim (eb_district b),
      ev_date = eb_date b, ev_time = eb_time b, ev_images = images, ev_reports = reports,
      ev_createdBy = creator, ev_createdAt = now\<rparr>"

definition createEvent ::
  "env \<Rightarrow> nat \<Rightarrow> user \<Rightarrow> event_body \<Rightarrow> uploads \<Rightarrow> db \<Rightarrow> event response \<times> db" where
  "createEvent env now req_user b up d =
     (let errors = event_validation env b in
      if errors \<noteq> [] then (ValidationError errors, d)
      else
        case up of
          UploadRejected \<Rightarrow> (ServerError ''Server error'', d)
        | Uploaded images reports \<Rightarrow>
            let title = trim (eb_title b);
                district = trim (eb_district b);
                (i, d1) = new_oid env d;
                event = new_event i now (us_id req_user) b images reports
            in if event_save_fails env event then (ServerError ''Server error'', d1)
               else
                 let d2 = d1\<lparr>db_events := db_events d1 @ [event]\<rparr>;
                     usersToNotify = db_users d2;
                     (ps, d3) = notificationPromises env now (us_id req_user) title district
                                  (ev_id event) usersToNotify d2
                 in (case Promise_all (filter_Boolean ps) of
                       Inl e \<Rightarrow> (ServerError ''Server error'', d3)
                     | Inr ns \<Rightarrow> (Created event, d3)))"

section \<open>A sample store\<close>

text \<open>A text of 24 hexadecimal digits is cast to an ObjectId by every version of
  Mongoose.\<close>

definition is_hex :: "char \<Rightarrow> bool" where
  "is_hex c = (c \<in> set ''0123456789abcdefABCDEF'')"

definition hex24 :: "string \<Rightarrow> bool" where
  "hex24 s = (length s = 24 \<and> list_all is_hex s)"

definition uid1 :: oid where "uid1 = ''64a0000000000000000000a1''"
definition uid2 :: oid where "uid2 = ''64a0000000000000000000a2''"
definition uid3 :: oid where "uid3 = ''64a0000000000000000000a3''"
definition uid4 :: oid where "uid4 = ''64a0000000000000000000a4''"
definition eid1 :: oid where "eid1 = ''64b0000000000000000000e1''"
definition eid9 :: oid where "eid9 = ''64b0000000000000000000e9''"
definition rid1 :: oid where "rid1 = ''64c0000000000000000000c1''"
definition rid9 :: oid where "rid9 = ''64c0000000000000000000c9''"

definition env0 :: env where
  "env0 = \<lparr>gen_oid = (\<lambda>n. if n = 0 then ''64d0000000000000000000d0''
                        else if n = 1 then ''64d0000000000000000000d1''
                        else if n = 2 then ''64d0000000000000000000d2''
                        else ''64d0000000000000000000df''),
           castsToObjectId = hex24,
           isEmail = (\<lambda>s. CHR ''@'' \<in> set s),
           isISO8601 = (\<lambda>s. s \<noteq> []),
           notification_save_fails = (\<lambda>n. False),
           registration_save_fails = (\<lambda>r. False),
           event_save_fails = (\<lambda>e. False)\<rparr>"

text \<open>The same surroundings with a store that rejects every notification.\<close>

definition env_fail :: env where
  "env_fail = env0\<lparr>notification_save_fails := (\<lambda>n. True)\<rparr>"

definition user1 :: user where
  "user1 = \<lparr>us_id = uid1, us_name = ''Asha'', us_email = ''asha@zp.in'', us_role = ''admin''\<rparr>"

definition user2 :: user where
  "user2 = \<lparr>us_id = uid2, us_name = ''Ravi'', us_email = ''ravi@zp.in'', us_role = ''block_officer''\<rparr>"

definition user3 :: user where
  "user3 = \<lparr>us_id = uid3, us_name = ''Mira'', us_email = ''mira@zp.in'', us_role = ''public''\<rparr>"

definition event1 :: event where
  "event1 = \<lparr>ev_id = eid1, ev_title = ''Camp'', ev_description = ''Health camp'',
     ev_location = ''Hall'', ev_district = ''Sangli'', ev_date = ''2025-01-01'', ev_time = None,
     ev_images = [], ev_reports = [], ev_createdBy = uid1, ev_createdAt = 5\<rparr>"

definition body1 :: registration_body where
  "body1 = \<lparr>rb_event = eid1, rb_name = ''Neha'', rb_email = ''neha@x.in'', rb_phone = ''98'',
     rb_age = Some 30, rb_gender = ''female'', rb_address = ''Main road'',
     rb_district = ''Sangli'', rb_taluka = ''Miraj'', rb_village = ''Arag''\<rparr>"

definition registration1 :: registration where
  "registration1 = (new_registration rid1 7 body1)"

definition notification1 :: notification where
  "notification1 = \<lparr>nt_id = ''64e0000000000000000000f1'', nt_recipient = uid1, nt_title = ''T'',
     nt_message = ''first'', nt_type = ''info'', nt_read = False, nt_link = None,
     nt_createdAt = 1\<rparr>"

definition db0 :: db where
  "db0 = \<lparr>db_users = [user1, user2, user3], db_events = [event1],
     db_registrations = [registration1],
     db_notifications = [notification1,
        notification1\<lparr>nt_id := ''64e0000000000000000000f2'', nt_message := ''second'',
           nt_createdAt := 2\<rparr>,
        notification1\<lparr>nt_id := ''64e0000000000000000000f3'', nt_recipient := uid2,
           nt_createdAt := 3\<rparr>,
        notification1\<lparr>nt_id := ''64e0000000000000000000f4'', nt_message := ''fourth'',
           nt_read := True, nt_createdAt := 4\<rparr>],
     db_oids = 0\<rparr>"

definition event_body1 :: event_body where
  "event_body1 = \<lparr>eb_title = '' Rally '', eb_description = ''Awareness rally'',
     eb_location = ''Chowk'', eb_district = ''Sangli'', eb_date = ''2025-02-02'', eb_time = None\<rparr>"

section \<open>Facts about the sample store\<close>

lemmas sample_defs = env0_def env_fail_def user1_def user2_def user3_def event1_def body1_def
  registration1_def notification1_def db0_def event_body1_def

lemma sample_ids:
  "uid1 \<noteq> uid2" "uid1 \<noteq> uid3" "uid1 \<noteq> uid4" "uid2 \<noteq> uid1" "uid2 \<noteq> uid3" "uid2 \<noteq> uid4"
  "uid3 \<noteq> uid1" "uid3 \<noteq> uid2" "uid3 \<noteq> uid4" "uid4 \<noteq> uid1" "uid4 \<noteq> uid2" "uid4 \<noteq> uid3"
  "eid1 \<noteq> eid9" "eid9 \<noteq> eid1" "rid1 \<noteq> rid9" "rid9 \<noteq> rid1"
  by (simp_all add: uid1_def uid2_def uid3_def uid4_def eid1_def eid9_def rid1_def rid9_def)

lemma sample_nonempty: "eid1 \<noteq> []" "eid9 \<noteq> []"
  by (simp_all add: eid1_def eid9_def)

lemma sample_hex:
  "hex24 eid1" "hex24 eid9" "hex24 rid1" "hex24 rid9" "\<not> hex24 ''e9''" "\<not> hex24 ''r9''"
  by (simp_all add: hex24_def is_hex_def eid1_def eid9_def rid1_def rid9_def)

section \<open>Properties of the guard\<close>

text \<open>
  C10. The guard \<open>isAdmin\<close> lets a request pass exactly when a user was resolved and its
  role is \<open>admin\<close> or \<open>Official_member\<close>; every other request, among them those of a
  \<open>block_officer\<close>, of a \<open>public\<close> user and those without a user, is answered 403.
\<close>

theorem isAdmin_passes_iff:
  "(isAdmin req_user = Next) =
     (\<exists>u. req_user = Some u \<and> (us_role u = ''admin'' \<or> us_role u = ''Official_member''))
   \<and> (isAdmin req_user = Next \<or>
        isAdmin req_user = Denied 403 ''Access denied. Admin or Official member only.'')
   \<and> isAdmin None = Denied 403 ''Access denied. Admin or Official member only.''
   \<and> isAdmin (Some (u\<lparr>us_role := ''block_officer''\<rparr>))
        = Denied 403 ''Access denied. Admin or Official member only.''
   \<and> isAdmin (Some (u\<lparr>us_role := ''public''\<rparr>))
        = Denied 403 ''Access denied. Admin or Official member only.''
   \<and> isAdmin (Some (u\<lparr>us_role := ''Official_member''\<rparr>)) = Next
   \<and> isAdmin (Some (u\<lparr>us_role := ''admin''\<rparr>)) = Next"
  by (auto simp: isAdmin_def split: option.splits)

theorem isAdmin_passes_iff_witness:
  "isAdmin (Some \<lparr>us_id = ''u1'', us_name = ''Asha'', us_email = ''a@x.in'', us_role = ''Official_member''\<rparr>)
     = Next"
  using isAdmin_passes_iff
    [of "Some \<lparr>us_id = ''u1'', us_name = ''Asha'', us_email = ''a@x.in'', us_role = ''Official_member''\<rparr>"]
  by simp

section \<open>Properties of the notification service\<close>

lemma sorted_wrt_newest_first:
  "sorted_wrt (\<lambda>a b. t b \<le> t a) (sort_newest_first t xs)"
proof -
  have "sorted (map (\<lambda>x. - int (t x)) (sort_key (\<lambda>x. - int (t x)) xs))"
    by (rule sorted_sort_key)
  then have "sorted_wrt (\<lambda>a b. - int (t a) \<le> - int (t b)) (sort_key (\<lambda>x. - int (t x)) xs)"
    by (simp add: sorted_map)
  then show ?thesis
    by (simp add: sort_newest_first_def)
qed

lemma mset_sort_newest_first: "mset (sort_newest_first t xs) = mset xs"
  by (simp add: sort_newest_first_def)

lemma set_sort_newest_first: "set (sort_newest_first t xs) = set xs"
  by (simp add: sort_newest_first_def)

lemma sorted_wrt_drop_page: "sorted_wrt P xs \<Longrightarrow> sorted_wrt P (drop n xs)"
  by (induction xs arbitrary: n) (auto simp: drop_Cons split: nat.splits dest: in_set_dropD)

lemma sorted_wrt_take_page: "sorted_wrt P xs \<Longrightarrow> sorted_wrt P (take n xs)"
  by (induction xs arbitrary: n) (auto simp: take_Cons split: nat.splits dest: in_set_takeD)

lemma ceiling_real_div_nat:
  assumes "0 < l"
  shows "\<lceil>real t / real l\<rceil> = int ((t + l - 1) div l)"
proof -
  define k where "k = (t + l - 1) div l"
  have lo: "k * l \<le> t + l - 1"
    unfolding k_def by simp
  have hi: "t + l - 1 < l + k * l"
    unfolding k_def using assms by (rule dividend_less_div_times)
  from hi assms have up: "t \<le> k * l" by simp
  from lo assms have dn: "k * l < t + l" by simp
  have "real t \<le> real k * real l"
    using up by (metis of_nat_le_iff of_nat_mult)
  then have a: "real t / real l \<le> of_int (int k)"
    using assms by (simp add: pos_divide_le_eq)
  have "real k * real l < real t + real l"
    using dn by (metis of_nat_less_iff of_nat_mult of_nat_add)
  then have "(real k - 1) * real l < real t"
    by (simp add: algebra_simps)
  then have b: "of_int (int k) - 1 < real t / real l"
    using assms by (simp add: pos_less_divide_eq)
  from b a have "\<lceil>real t / real l\<rceil> = int k"
    by (rule ceiling_unique)
  then show ?thesis by (simp add: k_def)
qed

lemma markAllAsRead_idem: "markAllAsRead (markAllAsRead coll u) u = markAllAsRead coll u"
  by (induction coll) (auto simp: markAllAsRead_def)

lemma getUnreadCount_markAllAsRead: "getUnreadCount (markAllAsRead coll u) u = 0"
  by (auto simp: markAllAsRead_def getUnreadCount_def filter_empty_conv)

lemma markAllAsRead_others:
  "filter (\<lambda>n. nt_recipient n \<noteq> u) (markAllAsRead coll u) = filter (\<lambda>n. nt_recipient n \<noteq> u) coll"
  by (induction coll) (auto simp: markAllAsRead_def)

lemma markAllAsRead_sets_read:
  "markAllAsRead coll u = map (\<lambda>n. if nt_recipient n = u then n\<lparr>nt_read := True\<rparr> else n) coll"
  by (induction coll) (auto simp: markAllAsRead_def)

text \<open>
  C8. For a positive page and a positive limit, \<open>getUserNotifications\<close> returns at most
  \<open>limit\<close> notifications, all of them stored notifications of the recipient, newest
  first: they are the \<open>limit\<close> entries that follow the first \<open>(page - 1) * limit\<close> ones
  in the recipient's notifications sorted by decreasing creation time. \<open>totalPages\<close> is
  the ceiling of the number of the recipient's notifications divided by \<open>limit\<close>.
\<close>

theorem getUserNotifications_page:
  fixes coll :: "notification list" and userId :: oid and page limit :: nat
  assumes "0 < page" and "0 < limit"
  defines "mine \<equiv> filter (\<lambda>n. nt_recipient n = userId) coll"
  defines "r \<equiv> getUserNotifications coll userId page limit"
  shows "length (pg_notifications r) \<le> limit
       \<and> set (pg_notifications r) \<subseteq> {n \<in> set coll. nt_recipient n = userId}
       \<and> sorted_wrt (\<lambda>a b. nt_createdAt b \<le> nt_createdAt a) (pg_notifications r)
       \<and> pg_notifications r
           = take limit (drop ((page - 1) * limit) (sort_newest_first nt_createdAt mine))
       \<and> mset (sort_newest_first nt_createdAt mine) = mset mine
       \<and> sorted_wrt (\<lambda>a b. nt_createdAt b \<le> nt_createdAt a) (sort_newest_first nt_createdAt mine)
       \<and> pg_totalPages r = Num \<lceil>real (length mine) / real limit\<rceil>
       \<and> pg_totalPages r = Num (int ((length mine + limit - 1) div limit))
       \<and> pg_currentPage r = page"
proof -
  have eq: "pg_notifications r
      = take limit (drop ((page - 1) * limit) (sort_newest_first nt_createdAt mine))"
    using assms(2) by (simp add: r_def mine_def getUserNotifications_def cursor_limit_def Let_def)
  have len: "length (pg_notifications r) \<le> limit"
    unfolding eq by simp
  have "set (pg_notifications r) \<subseteq> set (sort_newest_first nt_createdAt mine)"
    unfolding eq by (meson in_set_dropD in_set_takeD subsetI)
  then have sub: "set (pg_notifications r) \<subseteq> {n \<in> set coll. nt_recipient n = userId}"
    by (auto simp: set_sort_newest_first mine_def)
  have srt: "sorted_wrt (\<lambda>a b. nt_createdAt b \<le> nt_createdAt a) (pg_notifications r)"
    unfolding eq by (intro sorted_wrt_take_page sorted_wrt_drop_page sorted_wrt_newest_first)
  have tp: "pg_totalPages r = Num \<lceil>real (length mine) / real limit\<rceil>"
    using assms(2) by (simp add: r_def mine_def getUserNotifications_def math_ceil_div_def Let_def)
  have tp2: "pg_totalPages r = Num (int ((length mine + limit - 1) div limit))"
    unfolding tp using assms(2) by (simp only: ceiling_real_div_nat)
  have cp: "pg_currentPage r = page"
    by (simp add: r_def getUserNotifications_def Let_def)
  from len sub srt eq tp tp2 cp show ?thesis
    by (simp add: mset_sort_newest_first sorted_wrt_newest_first)
qed

theorem getUserNotifications_page_witness:
  "map nt_message (pg_notifications (getUserNotifications (db_notifications db0) uid1 2 2))
     = [''first'']
   \<and> length (pg_notifications (getUserNotifications (db_notifications db0) uid1 2 2)) \<le> 2
   \<and> pg_totalPages (getUserNotifications (db_notifications db0) uid1 2 2) = Num 2"
proof -
  have p: "(0::nat) < 2" by simp
  have srt: "sort_newest_first nt_createdAt (filter (\<lambda>n. nt_recipient n = uid1) (db_notifications db0))
      = [notification1\<lparr>nt_id := ''64e0000000000000000000f4'', nt_message := ''fourth'',
           nt_read := True, nt_createdAt := 4\<rparr>,
         notification1\<lparr>nt_id := ''64e0000000000000000000f2'', nt_message := ''second'',
           nt_createdAt := 2\<rparr>,
         notification1]"
    by (simp add: sort_newest_first_def db0_def notification1_def sample_ids)
  from getUserNotifications_page [OF p p, where userId = uid1 and coll = "db_notifications db0"]
  show ?thesis
    unfolding srt by (simp add: db0_def notification1_def sample_ids)
qed

text \<open>
  C9. \<open>markAllAsRead\<close> sets the read flag of every notification of the recipient and
  leaves the notifications of other recipients as they are. After one call the recipient's
  unread count is 0; a second call changes nothing and the unread count is still 0.
\<close>

theorem markAllAsRead_idempotent:
  "markAllAsRead coll userId
     = map (\<lambda>n. if nt_recipient n = userId then n\<lparr>nt_read := True\<rparr> else n) coll
   \<and> getUnreadCount (markAllAsRead coll userId) userId = 0
   \<and> markAllAsRead (markAllAsRead coll userId) userId = markAllAsRead coll userId
   \<and> getUnreadCount (markAllAsRead (markAllAsRead coll userId) userId) userId = 0
   \<and> filter (\<lambda>n. nt_recipient n \<noteq> userId) (markAllAsRead coll userId)
       = filter (\<lambda>n. nt_recipient n \<noteq> userId) coll"
proof (intro conjI)
  show "markAllAsRead coll userId
      = map (\<lambda>n. if nt_recipient n = userId then n\<lparr>nt_read := True\<rparr> else n) coll"
    by (rule markAllAsRead_sets_read)
  show "getUnreadCount (markAllAsRead coll userId) userId = 0"
    by (rule getUnreadCount_markAllAsRead)
  show "markAllAsRead (markAllAsRead coll userId) userId = markAllAsRead coll userId"
    by (rule markAllAsRead_idem)
  show "getUnreadCount (markAllAsRead (markAllAsRead coll userId) userId) userId = 0"
    by (rule getUnreadCount_markAllAsRead)
  show "filter (\<lambda>n. nt_recipient n \<noteq> userId) (markAllAsRead coll userId)
      = filter (\<lambda>n. nt_recipient n \<noteq> userId) coll"
    by (rule markAllAsRead_others)
qed

section \<open>Properties of the event creation fan-out\<close>

lemma createNotification_eq:
  "createNotification env now r t m ty l d =
     (if notification_save_fails env (new_notification (gen_oid env (db_oids d)) now r t m ty l)
      then (Inl SaveError, d\<lparr>db_oids := Suc (db_oids d)\<rparr>)
      else (Inr (new_notification (gen_oid env (db_oids d)) now r t m ty l),
            d\<lparr>db_oids := Suc (db_oids d),
              db_notifications := db_notifications d
                 @ [new_notification (gen_oid env (db_oids d)) now r t m ty l]\<rparr>))"
  by (simp add: createNotification_def new_oid_def Let_def)

lemma Promise_all_outcomes:
  "Promise_all (map (\<lambda>n. if P n then Inl SaveError else Inr n) ns)
     = (if \<exists>n\<in>set ns. P n then Inl SaveError else Inr ns)"
  by (induction ns) auto

lemma notificationPromises_outcomes:
  "notificationPromises env now c t dst eid us d = (ps, d') \<Longrightarrow>
     filter_Boolean ps
       = map (\<lambda>n. if notification_save_fails env n then Inl SaveError else Inr n)
           (fanout_documents env now c t dst eid us (db_oids d))
   \<and> d' = d\<lparr>db_oids := db_oids d + length (fanout_documents env now c t dst eid us (db_oids d)),
            db_notifications := db_notifications d
              @ filter (\<lambda>n. \<not> notification_save_fails env n)
                  (fanout_documents env now c t dst eid us (db_oids d))\<rparr>"
proof (induction us arbitrary: d ps d')
  case Nil
  then show ?case by simp
next
  case (Cons u us)
  show ?case
  proof (cases "us_id u = c")
    case True
    obtain qs e where r: "notificationPromises env now c t dst eid us d = (qs, e)"
      by (cases "notificationPromises env now c t dst eid us d")
    with Cons.prems True have "ps = None # qs" "d' = e" by auto
    with Cons.IH [OF r] True show ?thesis by simp
  next
    case False
    obtain p d1 where c1: "createNotification env now (us_id u) ''New Event Created''
        (new_event_message t dst) ''info'' (Some (''/events/'' @ eid)) d = (p, d1)"
      by (cases "createNotification env now (us_id u) ''New Event Created''
        (new_event_message t dst) ''info'' (Some (''/events/'' @ eid)) d")
    obtain qs e where r: "notificationPromises env now c t dst eid us d1 = (qs, e)"
      by (cases "notificationPromises env now c t dst eid us d1")
    from Cons.prems False c1 r have ps: "ps = Some p # qs" and d': "d' = e" by auto
    from c1 have o: "db_oids d1 = Suc (db_oids d)"
      by (auto simp: createNotification_eq split: if_splits)
    from Cons.IH [OF r] c1 False ps d' o show ?thesis
      by (auto simp: createNotification_eq split: if_splits)
  qed
qed


lemma fanout_documents_recipients:
  "map nt_recipient (fanout_documents env now c t dst eid us k)
     = map us_id (filter (\<lambda>u. us_id u \<noteq> c) us)"
  by (induction us arbitrary: k) (auto simp: new_notification_def)

lemma fanout_documents_content:
  "n \<in> set (fanout_documents env now c t dst eid us k) \<Longrightarrow>
     nt_title n = ''New Event Created'' \<and> nt_message n = new_event_message t dst
   \<and> nt_type n = ''info'' \<and> nt_link n = Some (''/events/'' @ eid) \<and> nt_read n = False
   \<and> nt_createdAt n = now"
  by (induction us arbitrary: k) (auto simp: new_notification_def split: if_splits)

lemma new_event_message_district: "sublist dst (new_event_message t dst)"
  unfolding sublist_def new_event_message_def
  by (intro exI [of _ "''A new event '' @ dquote @ t @ dquote @ '' has been created in ''"]
        exI [of _ "[]"]) simp

lemma new_event_message_title: "sublist t (new_event_message t dst)"
  unfolding sublist_def new_event_message_def
  by (intro exI [of _ "''A new event '' @ dquote"]
        exI [of _ "dquote @ '' has been created in '' @ dst"]) simp

lemma createEvent_outcome:
  assumes "event_validation env b = []"
    and "\<not> event_save_fails env (new_event (gen_oid env (db_oids d)) now (us_id req_user) b images reports)"
  shows "createEvent env now req_user b (Uploaded images reports) d =
     ((if \<exists>n \<in> set (fanout_documents env now (us_id req_user) (trim (eb_title b))
                      (trim (eb_district b)) (gen_oid env (db_oids d)) (db_users d) (Suc (db_oids d))).
            notification_save_fails env n
       then ServerError ''Server error''
       else Created (new_event (gen_oid env (db_oids d)) now (us_id req_user) b images reports)),
      d\<lparr>db_oids := Suc (db_oids d) + length (fanout_documents env now (us_id req_user)
             (trim (eb_title b)) (trim (eb_district b)) (gen_oid env (db_oids d)) (db_users d)
             (Suc (db_oids d))),
        db_events := db_events d
           @ [new_event (gen_oid env (db_oids d)) now (us_id req_user) b images reports],
        db_notifications := db_notifications d
           @ filter (\<lambda>n. \<not> notification_save_fails env n)
               (fanout_documents env now (us_id req_user) (trim (eb_title b))
                  (trim (eb_district b)) (gen_oid env (db_oids d)) (db_users d)
                  (Suc (db_oids d)))\<rparr>)"
proof -
  let ?event = "new_event (gen_oid env (db_oids d)) now (us_id req_user) b images reports"
  let ?d2 = "d\<lparr>db_oids := Suc (db_oids d), db_events := db_events d @ [?event]\<rparr>"
  obtain ps d3 where np: "notificationPromises env now (us_id req_user) (trim (eb_title b))
      (trim (eb_district b)) (gen_oid env (db_oids d)) (db_users d) ?d2 = (ps, d3)"
    by (cases "notificationPromises env now (us_id req_user) (trim (eb_title b))
      (trim (eb_district b)) (gen_oid env (db_oids d)) (db_users d) ?d2")
  have id: "ev_id ?event = gen_oid env (db_oids d)"
    by (simp add: new_event_def)
  from notificationPromises_outcomes [OF np]
  have fb: "filter_Boolean ps
       = map (\<lambda>n. if notification_save_fails env n then Inl SaveError else Inr n)
           (fanout_documents env now (us_id req_user) (trim (eb_title b))
              (trim (eb_district b)) (gen_oid env (db_oids d)) (db_users d) (Suc (db_oids d)))"
    and d3: "d3 = ?d2\<lparr>db_oids := db_oids ?d2 + length (fanout_documents env now (us_id req_user)
             (trim (eb_title b)) (trim (eb_district b)) (gen_oid env (db_oids d)) (db_users d)
             (db_oids ?d2)),
        db_notifications := db_notifications ?d2
           @ filter (\<lambda>n. \<not> notification_save_fails env n)
               (fanout_documents env now (us_id req_user) (trim (eb_title b))
                  (trim (eb_district b)) (gen_oid env (db_oids d)) (db_users d)
                  (db_oids ?d2))\<rparr>"
    by simp_all
  have "createEvent env now req_user b (Uploaded images reports) d
      = (case Promise_all (filter_Boolean ps) of
           Inl e \<Rightarrow> (ServerError ''Server error'', d3)
         | Inr ns \<Rightarrow> (Created ?event, d3))"
    using assms np by (simp add: createEvent_def new_oid_def Let_def id)
  also have "\<dots> = ((if \<exists>n \<in> set (fanout_documents env now (us_id req_user) (trim (eb_title b))
                      (trim (eb_district b)) (gen_oid env (db_oids d)) (db_users d) (Suc (db_oids d))).
            notification_save_fails env n
       then ServerError ''Server error'' else Created ?event), d3)"
    unfolding fb Promise_all_outcomes by simp
  finally show ?thesis
    unfolding d3 by simp
qed


lemma sample_trim: "trim '' Rally '' = ''Rally''" "trim ''Sangli'' = ''Sangli''"
  "trim ''Awareness rally'' = ''Awareness rally''" "trim ''Chowk'' = ''Chowk''"
  by (simp_all add: trim_def ltrim_def rtrim_def is_space_def is_space2_def is_space3_def)

lemma trim_no_break_space:
  "trim (CHR 0xC2 # CHR 0xA0 # ''Rally'' @ [CHR 0xE3, CHR 0x80, CHR 0x80, CHR 0x09]) = ''Rally''"
  "check_trim_notEmpty ''title'' ''Title is required'' [CHR 0xC2, CHR 0xA0, CHR 0x20]
     = [(''title'', ''Title is required'')]"
  by (simp_all add: check_trim_notEmpty_def trim_def ltrim_def rtrim_def is_space_def
        is_space2_def is_space3_def)

lemma sample_event_valid: "event_validation env0 event_body1 = []"
  "event_validation env_fail event_body1 = []"
  by (simp_all add: event_validation_def check_trim_notEmpty_def sample_defs sample_trim)

text \<open>
  C2, as stated, fails: with one other user whose notification the store rejects, the
  handler answers 500, while the event has been stored.
\<close>

theorem createEvent_fanout_failure_counterexample:
  "fst (createEvent env_fail 9 user1 event_body1 (Uploaded [] []) db0) = ServerError ''Server error''
   \<and> status_code (fst (createEvent env_fail 9 user1 event_body1 (Uploaded [] []) db0)) = 500
   \<and> map ev_title (db_events (snd (createEvent env_fail 9 user1 event_body1 (Uploaded [] []) db0)))
       = [''Camp'', ''Rally'']"
proof -
  have f: "\<not> event_save_fails env_fail
      (new_event (gen_oid env_fail (db_oids db0)) 9 (us_id user1) event_body1 [] [])"
    by (simp add: sample_defs)
  show ?thesis
    unfolding createEvent_outcome [OF sample_event_valid(2) f]
    by (auto simp: sample_defs sample_ids new_event_def sample_trim new_notification_def)
qed

text \<open>
  C2, amended. For a valid request whose uploads and whose event write succeed, the
  event is stored whatever the fan-out does and is never rolled back, and every fan-out
  notification that the store accepts is stored; but a rejected fan-out write is thrown
  again by \<open>createNotification\<close> and reaches the handler through \<open>Promise.all\<close>: the
  answer is 201 exactly when no fan-out write fails, and 500 as soon as one fails.
\<close>

theorem createEvent_fanout_failure_surfaces:
  assumes "event_validation env b = []"
    and "\<not> event_save_fails env (new_event (gen_oid env (db_oids d)) now (us_id req_user) b images reports)"
  shows "fst (createEvent env now req_user b (Uploaded images reports) d)
       = (if \<exists>n \<in> set (fanout_documents env now (us_id req_user) (trim (eb_title b))
                      (trim (eb_district b)) (gen_oid env (db_oids d)) (db_users d) (Suc (db_oids d))).
               notification_save_fails env n
          then ServerError ''Server error''
          else Created (new_event (gen_oid env (db_oids d)) now (us_id req_user) b images reports))
     \<and> status_code (fst (createEvent env now req_user b (Uploaded images reports) d))
       = (if \<exists>n \<in> set (fanout_documents env now (us_id req_user) (trim (eb_title b))
                      (trim (eb_district b)) (gen_oid env (db_oids d)) (db_users d) (Suc (db_oids d))).
               notification_save_fails env n
          then 500 else 201)
     \<and> db_events (snd (createEvent env now req_user b (Uploaded images reports) d))
       = db_events d @ [new_event (gen_oid env (db_oids d)) now (us_id req_user) b images reports]
     \<and> db_notifications (snd (createEvent env now req_user b (Uploaded images reports) d))
       = db_notifications d
           @ filter (\<lambda>n. \<not> notification_save_fails env n)
               (fanout_documents env now (us_id req_user) (trim (eb_title b))
                  (trim (eb_district b)) (gen_oid env (db_oids d)) (db_users d)
                  (Suc (db_oids d)))"
  unfolding createEvent_outcome [OF assms] by simp

theorem createEvent_fanout_failure_surfaces_witness:
  "status_code (fst (createEvent env0 9 user1 event_body1 (Uploaded [] []) db0)) = 201
   \<and> map nt_recipient (db_notifications (snd (createEvent env0 9 user1 event_body1 (Uploaded [] []) db0)))
       = [uid1, uid1, uid2, uid1, uid2, uid3]"
proof -
  have f: "\<not> event_save_fails env0
      (new_event (gen_oid env0 (db_oids db0)) 9 (us_id user1) event_body1 [] [])"
    by (simp add: sample_defs)
  from createEvent_fanout_failure_surfaces [OF sample_event_valid(1) f]
  show ?thesis
    by (simp add: sample_defs sample_ids new_event_def sample_trim new_notification_def)
qed

text \<open>
  C7. When the creation of an event is answered 201, the notifications added to the
  store are exactly one per user other than the creator and none for the creator; each has the title of a new event, a message that names the
  event's district, and the link \<open>/events/{id}\<close> of the new event.
\<close>

theorem createEvent_notifies_others:
  assumes "createEvent env now req_user b up d = (Created event, d')"
  shows "\<exists>ns. db_notifications d' = db_notifications d @ ns
          \<and> length ns = length (filter (\<lambda>u. us_id u \<noteq> us_id req_user) (db_users d))
          \<and> map nt_recipient ns = map us_id (filter (\<lambda>u. us_id u \<noteq> us_id req_user) (db_users d))
          \<and> us_id req_user \<notin> set (map nt_recipient ns)
          \<and> (\<forall>n \<in> set ns.
                nt_title n = ''New Event Created''
              \<and> nt_message n = new_event_message (ev_title event) (ev_district event)
              \<and> sublist (ev_district event) (nt_message n)
              \<and> nt_link n = Some (''/events/'' @ ev_id event)
              \<and> nt_read n = False)
          \<and> db_events d' = db_events d @ [event]
          \<and> ev_createdBy event = us_id req_user"
proof -
  from assms have v: "event_validation env b = []"
    by (auto simp: createEvent_def Let_def split: if_splits)
  from assms v obtain images reports where up: "up = Uploaded images reports"
    by (cases up) (auto simp: createEvent_def Let_def)
  let ?event = "new_event (gen_oid env (db_oids d)) now (us_id req_user) b images reports"
  let ?docs = "fanout_documents env now (us_id req_user) (trim (eb_title b))
                  (trim (eb_district b)) (gen_oid env (db_oids d)) (db_users d) (Suc (db_oids d))"
  from assms v up have f: "\<not> event_save_fails env ?event"
    by (auto simp: createEvent_def Let_def new_oid_def split: if_splits)
  note out = createEvent_outcome [OF v f]
  from assms up out have nofail: "\<not> (\<exists>n \<in> set ?docs. notification_save_fails env n)"
    by (auto split: if_splits)
  from assms up out nofail have ev: "event = ?event"
    and d': "d' = d\<lparr>db_oids := Suc (db_oids d) + length ?docs,
        db_events := db_events d @ [?event],
        db_notifications := db_notifications d
           @ filter (\<lambda>n. \<not> notification_save_fails env n) ?docs\<rparr>"
    by auto
  from nofail have all: "filter (\<lambda>n. \<not> notification_save_fails env n) ?docs = ?docs"
    by (simp add: filter_id_conv)
  have t: "ev_title event = trim (eb_title b)" "ev_district event = trim (eb_district b)"
    "ev_id event = gen_oid env (db_oids d)" "ev_createdBy event = us_id req_user"
    by (simp_all add: ev new_event_def)
  have 1: "db_notifications d' = db_notifications d @ ?docs"
    by (simp add: d' all)
  have 2: "map nt_recipient ?docs = map us_id (filter (\<lambda>u. us_id u \<noteq> us_id req_user) (db_users d))"
    by (rule fanout_documents_recipients)
  then have 3: "length ?docs = length (filter (\<lambda>u. us_id u \<noteq> us_id req_user) (db_users d))"
    by (metis length_map)
  have 4: "us_id req_user \<notin> set (map nt_recipient ?docs)"
    unfolding 2 by auto
  have 5: "\<forall>n \<in> set ?docs.
                nt_title n = ''New Event Created''
              \<and> nt_message n = new_event_message (ev_title event) (ev_district event)
              \<and> sublist (ev_district event) (nt_message n)
              \<and> nt_link n = Some (''/events/'' @ ev_id event)
              \<and> nt_read n = False"
  proof
    fix n assume "n \<in> set ?docs"
    from fanout_documents_content [OF this]
    show "nt_title n = ''New Event Created''
              \<and> nt_message n = new_event_message (ev_title event) (ev_district event)
              \<and> sublist (ev_district event) (nt_message n)
              \<and> nt_link n = Some (''/events/'' @ ev_id event)
              \<and> nt_read n = False"
      by (simp add: t new_event_message_district)
  qed
  have 6: "db_events d' = db_events d @ [event]"
    by (simp add: d' ev)
  from 1 2 3 4 5 6 t(4) show ?thesis
    by blast
qed

theorem createEvent_notifies_others_witness:
  "\<exists>ns. db_notifications (snd (createEvent env0 9 user1 event_body1 (Uploaded [] []) db0))
           = db_notifications db0 @ ns
        \<and> length ns = 2 \<and> map nt_recipient ns = [uid2, uid3]
        \<and> (\<forall>n \<in> set ns. nt_link n = Some (''/events/'' @ gen_oid env0 0))"
proof -
  have f: "\<not> event_save_fails env0
      (new_event (gen_oid env0 (db_oids db0)) 9 (us_id user1) event_body1 [] [])"
    by (simp add: sample_defs)
  have "fst (createEvent env0 9 user1 event_body1 (Uploaded [] []) db0)
      = Created (new_event (gen_oid env0 0) 9 uid1 event_body1 [] [])"
    unfolding createEvent_outcome [OF sample_event_valid(1) f]
    by (simp add: sample_defs sample_ids new_event_def sample_trim new_notification_def)
  then have h: "createEvent env0 9 user1 event_body1 (Uploaded [] []) db0
      = (Created (new_event (gen_oid env0 0) 9 uid1 event_body1 [] []),
         snd (createEvent env0 9 user1 event_body1 (Uploaded [] []) db0))"
    by (metis prod.collapse)
  from createEvent_notifies_others [OF h] obtain ns where
    a: "db_notifications (snd (createEvent env0 9 user1 event_body1 (Uploaded [] []) db0))
          = db_notifications db0 @ ns"
    and b: "length ns = length (filter (\<lambda>u. us_id u \<noteq> us_id user1) (db_users db0))"
    and c: "map nt_recipient ns = map us_id (filter (\<lambda>u. us_id u \<noteq> us_id user1) (db_users db0))"
    and e: "\<forall>n \<in> set ns. nt_link n = Some (''/events/'' @ ev_id (new_event (gen_oid env0 0) 9 uid1 event_body1 [] []))"
    by blast
  from b have b': "length ns = 2" by (simp add: sample_defs sample_ids)
  from c have c': "map nt_recipient ns = [uid2, uid3]" by (simp add: sample_defs sample_ids)
  from e have e': "\<forall>n \<in> set ns. nt_link n = Some (''/events/'' @ gen_oid env0 0)"
    by (simp add: new_event_def)
  from a b' c' e' show ?thesis by (intro exI [of _ ns]) simp
qed

section \<open>Properties of the registration flow\<close>

lemma register_message_name: "sublist (rg_name r) (register_message r e)"
  unfolding sublist_def register_message_def
  by (intro exI [of _ "[]"]
        exI [of _ "'' has registered for your event '' @ dquote @ ev_title e @ dquote"]) simp

lemma register_message_title: "sublist (ev_title e) (register_message r e)"
  unfolding sublist_def register_message_def
  by (intro exI [of _ "rg_name r @ '' has registered for your event '' @ dquote"]
        exI [of _ "dquote"]) simp

lemma registration_rejected_pending:
  assumes "rg_status r = ''pending''"
  shows "registration_rejected env r = registration_save_fails env r"
proof -
  have "r\<lparr>rg_status := ''pending''\<rparr> = r\<lparr>rg_status := rg_status r\<rparr>"
    by (simp only: assms)
  also have "\<dots> = r"
    by simp
  finally show ?thesis
    by (simp only: registration_rejected_def)
qed


lemma registration_rejected_new:
  "registration_rejected env (new_registration i now b)
     = registration_save_fails env (new_registration i now b)"
  by (rule registration_rejected_pending) (simp add: new_registration_def)

lemma register_outcome:
  assumes "register_validation env b = []"
    and "findById_event env d (rb_event b) = Inr (Some event)"
    and "\<not> registration_save_fails env (new_registration (gen_oid env (db_oids d)) now b)"
  shows "register env now b d =
     (if notification_save_fails env
           (new_notification (gen_oid env (Suc (db_oids d))) now (ev_createdBy event)
              ''New Event Registration''
              (register_message (new_registration (gen_oid env (db_oids d)) now b) event)
              ''info'' (Some (''/event-registrations/'' @ ev_id event)))
      then (ServerError ''Server Error'',
            d\<lparr>db_oids := Suc (Suc (db_oids d)),
              db_registrations := db_registrations d
                 @ [new_registration (gen_oid env (db_oids d)) now b]\<rparr>)
      else (Ok (new_registration (gen_oid env (db_oids d)) now b),
            d\<lparr>db_oids := Suc (Suc (db_oids d)),
              db_registrations := db_registrations d
                 @ [new_registration (gen_oid env (db_oids d)) now b],
              db_notifications := db_notifications d
                 @ [new_notification (gen_oid env (Suc (db_oids d))) now (ev_createdBy event)
                      ''New Event Registration''
                      (register_message (new_registration (gen_oid env (db_oids d)) now b) event)
                      ''info'' (Some (''/event-registrations/'' @ ev_id event))]\<rparr>))"
  using assms
  by (simp add: register_def new_oid_def Let_def createNotification_eq registration_rejected_new)


lemmas check_defs = register_validation_def check_not_isEmpty_def check_isInt_min1_def
  check_isIn_def

lemma sample_register_valid: "register_validation env0 body1 = []"
  "register_validation env_fail body1 = []"
  by (simp_all add: check_defs sample_defs sample_nonempty)

lemma sample_event_found: "findById_event env0 db0 (rb_event body1) = Inr (Some event1)"
  "findById_event env_fail db0 (rb_event body1) = Inr (Some event1)"
  by (simp_all add: findById_event_def find_event_def sample_defs sample_hex)

text \<open>
  C1. For a registration request whose fields pass the checks and whose event exists,
  and whose registration the store accepts, \<open>register\<close> stores the registration with
  status \<open>pending\<close> and then writes exactly one notification, addressed to the event's
  creator, whose message contains the registrant's name and the event's title. When that
  notification write fails the answer is 500, no notification is stored, and the
  registration stays stored.
\<close>

theorem register_persists_then_notifies:
  fixes env :: env and now :: nat and b :: registration_body and d :: db and event :: event
  defines "registration \<equiv> new_registration (gen_oid env (db_oids d)) now b"
  defines "n \<equiv> new_notification (gen_oid env (Suc (db_oids d))) now (ev_createdBy event)
              ''New Event Registration'' (register_message registration event) ''info''
              (Some (''/event-registrations/'' @ ev_id event))"
  assumes "register_validation env b = []"
    and "findById_event env d (rb_event b) = Inr (Some event)"
    and "\<not> registration_save_fails env registration"
  shows "rg_status registration = ''pending''
     \<and> rg_name registration = rb_name b \<and> rg_event registration = rb_event b
     \<and> db_registrations (snd (register env now b d)) = db_registrations d @ [registration]
     \<and> nt_recipient n = ev_createdBy event
     \<and> sublist (rb_name b) (nt_message n)
     \<and> sublist (ev_title event) (nt_message n)
     \<and> (if notification_save_fails env n
         then fst (register env now b d) = ServerError ''Server Error''
            \<and> db_notifications (snd (register env now b d)) = db_notifications d
         else fst (register env now b d) = Ok registration
            \<and> db_notifications (snd (register env now b d)) = db_notifications d @ [n])"
proof -
  note out = register_outcome [OF assms(3,4) assms(5) [unfolded registration_def]]
  have 1: "rg_status registration = ''pending''" "rg_name registration = rb_name b"
    "rg_event registration = rb_event b"
    by (simp_all add: registration_def new_registration_def)
  have 2: "db_registrations (snd (register env now b d)) = db_registrations d @ [registration]"
    unfolding out by (simp add: registration_def)
  have 3: "nt_recipient n = ev_createdBy event"
    and m: "nt_message n = register_message registration event"
    by (simp_all add: n_def new_notification_def)
  have 4: "sublist (rb_name b) (nt_message n)"
    unfolding m using register_message_name [of registration event] by (simp add: 1)
  have 5: "sublist (ev_title event) (nt_message n)"
    unfolding m by (rule register_message_title)
  have 6: "if notification_save_fails env n
         then fst (register env now b d) = ServerError ''Server Error''
            \<and> db_notifications (snd (register env now b d)) = db_notifications d
         else fst (register env now b d) = Ok registration
            \<and> db_notifications (snd (register env now b d)) = db_notifications d @ [n]"
    unfolding out by (simp add: registration_def n_def)
  from 1 2 3 4 5 6 show ?thesis by simp
qed

theorem register_persists_then_notifies_witness:
  "fst (register env0 9 body1 db0) = Ok (new_registration (gen_oid env0 0) 9 body1)
   \<and> map nt_recipient (db_notifications (snd (register env0 9 body1 db0)))
       = [uid1, uid1, uid2, uid1, uid1]
   \<and> map rg_status (db_registrations (snd (register env0 9 body1 db0))) = [''pending'', ''pending'']
   \<and> fst (register env_fail 9 body1 db0) = ServerError ''Server Error''
   \<and> map rg_id (db_registrations (snd (register env_fail 9 body1 db0))) = [rid1, gen_oid env0 0]
   \<and> db_notifications (snd (register env_fail 9 body1 db0)) = db_notifications db0"
proof -
  have s0: "\<not> registration_save_fails env0 (new_registration (gen_oid env0 (db_oids db0)) 9 body1)"
    by (simp add: sample_defs)
  have s1: "\<not> registration_save_fails env_fail (new_registration (gen_oid env_fail (db_oids db0)) 9 body1)"
    by (simp add: sample_defs)
  from register_persists_then_notifies [OF sample_register_valid(1) sample_event_found(1) s0]
  have a: "fst (register env0 9 body1 db0) = Ok (new_registration (gen_oid env0 0) 9 body1)
   \<and> map nt_recipient (db_notifications (snd (register env0 9 body1 db0)))
       = [uid1, uid1, uid2, uid1, uid1]
   \<and> map rg_status (db_registrations (snd (register env0 9 body1 db0))) = [''pending'', ''pending'']"
    by (simp add: sample_defs sample_ids new_registration_def new_notification_def)
  from register_persists_then_notifies [OF sample_register_valid(2) sample_event_found(2) s1]
  have b: "fst (register env_fail 9 body1 db0) = ServerError ''Server Error''
   \<and> map rg_id (db_registrations (snd (register env_fail 9 body1 db0))) = [rid1, gen_oid env0 0]
   \<and> db_notifications (snd (register env_fail 9 body1 db0)) = db_notifications db0"
    by (simp add: sample_defs sample_ids new_registration_def new_notification_def)
  from a b show ?thesis by simp
qed
















section \<open>Properties of the status update\<close>













section \<open>Properties of the registration list\<close>

lemma listForEvent_outcomes:
  "listForEvent env d eventId uid =
     (if \<not> castsToObjectId env eventId then ServerError ''Server Error''
      else
        case find_event d eventId of
          None \<Rightarrow> NotFound ''Event not found''
        | Some event \<Rightarrow>
            if ev_createdBy event = uid
            then Ok (sort_newest_first rg_createdAt
                       (filter (\<lambda>r. rg_event r = eventId) (db_registrations d)))
            else ServerError ''Server Error'')"
  by (simp add: listForEvent_def findById_event_def event_sharedWith_def Let_def
        split: option.splits)

lemma listForEvent_never_Forbidden: "listForEvent env d eventId uid \<noteq> Forbidden m"
  by (simp add: listForEvent_outcomes split: option.splits)

text \<open>
  C3 fails on the code. The requester \<open>uid2\<close> is not the creator of the event \<open>eid1\<close>;
  reading \<open>sharedWith\<close> of the event gives \<open>undefined\<close>, and the answer is 500, not
  Forbidden.
\<close>

theorem listForEvent_non_creator_ServerError:
  "findById_event env0 db0 eid1 = Inr (Some event1)
   \<and> ev_createdBy event1 = uid1
   \<and> uid2 \<noteq> uid1
   \<and> listForEvent env0 db0 eid1 uid2 = ServerError ''Server Error''
   \<and> status_code (listForEvent env0 db0 eid1 uid2) = 500"
  by (simp add: listForEvent_outcomes findById_event_def find_event_def db0_def event1_def
        env0_def sample_hex sample_ids)

section \<open>Properties of sharing\<close>

lemma share_not_creator:
  "castsToObjectId env registrationId \<Longrightarrow> find_registration d registrationId = Some r \<Longrightarrow>
     find_event d (rg_event r) = Some e \<Longrightarrow> ev_createdBy e \<noteq> uid \<Longrightarrow>
     share env now registrationId uid userIds d = (Forbidden ''Not authorized'', d)"
  by (simp add: share_def findById_registration_def)

lemma js_Set_step_distinct:
  "distinct (acc @ xs) \<Longrightarrow>
     foldl (\<lambda>acc x. if x \<in> set acc then acc else acc @ [x]) acc xs = acc @ xs"
  by (induction xs arbitrary: acc) auto

lemma js_Set_step_strings:
  "\<forall>s. JsString s \<notin> set objs \<Longrightarrow>
     foldl (\<lambda>acc x. if x \<in> set acc then acc else acc @ [x]) (objs @ map JsString acc)
       (map JsString ids)
     = objs @ map JsString (foldl (\<lambda>acc x. if x \<in> set acc then acc else acc @ [x]) acc ids)"
proof (induction ids arbitrary: acc)
  case Nil
  then show ?case by simp
next
  case (Cons x ids)
  have m: "(JsString x \<in> set (objs @ map JsString acc)) = (x \<in> set acc)"
    using Cons.prems by auto
  show ?case
  proof (cases "x \<in> set acc")
    case True
    with m Cons.IH [OF Cons.prems, of acc] show ?thesis by simp
  next
    case False
    with m Cons.IH [OF Cons.prems, of "acc @ [x]"] show ?thesis by simp
  qed
qed

lemma stored_objects_distinct:
  "distinct (map (\<lambda>(a, i). ObjectId a i) (enumerate k sharedWith))"
proof -
  have "distinct (map fst (enumerate k sharedWith))"
    by simp
  then have "distinct (enumerate k sharedWith)"
    by (simp add: distinct_map)
  moreover have "inj_on (\<lambda>(a, i). ObjectId a i) (set (enumerate k sharedWith))"
    by (auto simp: inj_on_def)
  ultimately show ?thesis
    by (simp add: distinct_map)
qed

lemma stored_objects_cast:
  "map cast_ObjectId (map (\<lambda>(a, i). ObjectId a i) (enumerate k sharedWith)) = sharedWith"
  by (induction sharedWith arbitrary: k) auto

text \<open>What the merge stores: the stored list as it was, followed by the supplied
  identifiers without their repetitions. An identifier that is already stored is not
  recognised and is stored again.\<close>

lemma merge_sharedWith_append:
  "merge_sharedWith sharedWith userIds = sharedWith @ js_Set_values userIds"
proof -
  let ?f = "\<lambda>acc x. if x \<in> set acc then acc else acc @ [x]"
  let ?objs = "map (\<lambda>(a, i). ObjectId a i) (enumerate 0 sharedWith)"
  have o: "foldl ?f [] ?objs = ?objs"
    using js_Set_step_distinct [of "[]" ?objs] stored_objects_distinct [of 0 sharedWith]
    by simp
  have n: "\<forall>s. JsString s \<notin> set ?objs"
    by auto
  have "js_Set_values (?objs @ map JsString userIds) = foldl ?f (?objs @ map JsString []) (map JsString userIds)"
    by (simp add: js_Set_values_def o)
  also have "\<dots> = ?objs @ map JsString (foldl ?f [] userIds)"
    by (rule js_Set_step_strings [OF n])
  finally have v: "js_Set_values (?objs @ map JsString userIds)
      = ?objs @ map JsString (js_Set_values userIds)"
    by (simp add: js_Set_values_def)
  have c: "map cast_ObjectId (map JsString ys) = ys" for ys
    by (induction ys) auto
  show ?thesis
    unfolding merge_sharedWith_def v map_append stored_objects_cast c ..
qed

lemma set_js_Set_values: "set (js_Set_values xs) = set xs"
proof -
  have "set (foldl (\<lambda>acc x. if x \<in> set acc then acc else acc @ [x]) acc xs) = set acc \<union> set xs"
    for acc :: "'a list"
    by (induction xs arbitrary: acc) auto
  then show ?thesis
    by (simp add: js_Set_values_def)
qed

lemma set_merge_sharedWith:
  "set (merge_sharedWith sharedWith userIds) = set sharedWith \<union> set userIds"
  by (simp add: merge_sharedWith_append set_js_Set_values)

lemma share_notify_all:
  "\<forall>n. \<not> notification_save_fails env n \<Longrightarrow>
     fst (share_notify env now e ids d) = Inr ()
   \<and> map nt_recipient (db_notifications (snd (share_notify env now e ids d)))
       = map nt_recipient (db_notifications d) @ ids
   \<and> db_registrations (snd (share_notify env now e ids d)) = db_registrations d"
  by (induction ids arbitrary: d) (simp_all add: createNotification_eq new_notification_def)

lemma sample_merge:
  "merge_sharedWith [] [uid2, uid3] = [uid2, uid3]"
  "merge_sharedWith [uid2, uid3] [uid3, uid4] = [uid2, uid3, uid3, uid4]"
  by (simp_all add: merge_sharedWith_append js_Set_values_def sample_ids)

text \<open>
  C4 fails on the code. The owner \<open>uid1\<close> shares the registration \<open>rid1\<close> with \<open>uid2\<close>
  and \<open>uid3\<close>, then with \<open>uid3\<close> and \<open>uid4\<close>: the stored list holds \<open>uid3\<close> twice.
\<close>

theorem share_twice_stores_duplicate:
  "map rg_sharedWith (db_registrations (snd (share env0 9 rid1 uid1 (Some [uid2, uid3]) db0)))
     = [[uid2, uid3]]
   \<and> map rg_sharedWith (db_registrations
        (snd (share env0 9 rid1 uid1 (Some [uid3, uid4])
           (snd (share env0 9 rid1 uid1 (Some [uid2, uid3]) db0)))))
     = [[uid2, uid3, uid3, uid4]]
   \<and> \<not> distinct [uid2, uid3, uid3, uid4]"
  by (simp add: share_def findById_registration_def find_registration_def find_event_def
        sample_defs sample_hex new_registration_def sample_merge update_registration_def
        createNotification_eq new_notification_def Let_def registration_rejected_def)

end
